theory Spec2Isabelle
  imports Main
begin

section \<open>JavaScript values\<close>

text \<open>
  The script handles untyped values: spreadsheet cells (strings, numbers, booleans and
  dates, the empty cell being the empty string), the fields of a parsed request body,
  and \<open>undefined\<close> where an array is read past its end or a field is absent.
  A string is a list of code units below 256; a number is an integer (fractions and
  the floating-point special values are outside this development); a date is its
  time value in milliseconds.
\<close>

datatype jsval =
    JUndefined
  | JNull
  | JBool bool
  | JNum int
  | JStr string
  | JDate int

text \<open>Truthiness, as \<open>!value\<close>, \<open>a || b\<close> and \<open>if (value)\<close> test it.\<close>

fun truthy :: "jsval \<Rightarrow> bool" where
  "truthy JUndefined = False"
| "truthy JNull = False"
| "truthy (JBool b) = b"
| "truthy (JNum n) = (n \<noteq> 0)"
| "truthy (JStr s) = (s \<noteq> [])"
| "truthy (JDate t) = True"

text \<open>\<open>a || b\<close>: the left operand when it is truthy, the right one otherwise.\<close>

definition js_or :: "jsval \<Rightarrow> jsval \<Rightarrow> jsval" where
  "js_or a b = (if truthy a then a else b)"

subsection \<open>Strings\<close>

text \<open>
  \<open>String.prototype.toLowerCase\<close> on code units below 256: the letters A to Z and
  the accented capitals 192 to 222 (the multiplication sign 215 apart) move up by 32.
\<close>

definition toLowerChar :: "char \<Rightarrow> char" where
  "toLowerChar c =
     (let n = (of_char c :: nat)
      in if 65 \<le> n \<and> n \<le> 90 then char_of (n + 32)
         else if n = 215 then c
         else if 192 \<le> n \<and> n \<le> 222 then char_of (n + 32)
         else c)"

definition toLowerCase :: "string \<Rightarrow> string" where
  "toLowerCase s = map toLowerChar s"

text \<open>
  \<open>String.prototype.trim\<close> removes white space and line terminators from both ends;
  below 256 these are tab, line feed, vertical tab, form feed, carriage return, space
  and the no-break space.
\<close>

definition isWhiteSpace :: "char \<Rightarrow> bool" where
  "isWhiteSpace c =
     (let n = (of_char c :: nat)
      in n = 9 \<or> n = 10 \<or> n = 11 \<or> n = 12 \<or> n = 13 \<or> n = 32 \<or> n = 160)"

definition js_trim :: "string \<Rightarrow> string" where
  "js_trim s = rev (dropWhile isWhiteSpace (rev (dropWhile isWhiteSpace s)))"

text \<open>Decimal digits of a natural number, as \<open>Number.prototype.toString\<close> writes them.\<close>

function digits :: "nat \<Rightarrow> string" where
  "digits n = (if n < 10 then [char_of (48 + n)] else digits (n div 10) @ [char_of (48 + n mod 10)])"
  by pat_completeness auto
termination
  by (relation "measure id") auto

declare digits.simps [simp del]

text \<open>
  \<open>value.toString()\<close>. The rendering of a date depends on the time zone of the host, so
  it is a parameter \<open>dateString\<close> of everything that converts a value to a string.
  On \<open>undefined\<close> and \<open>null\<close> the method call raises a TypeError; every call in the
  script stands behind a \<open>!value\<close> test that has excluded both, and the two equations
  here (what \<open>String(value)\<close> gives) are never reached from it.
\<close>

fun toString :: "(int \<Rightarrow> string) \<Rightarrow> jsval \<Rightarrow> string" where
  "toString dateString JUndefined = ''undefined''"
| "toString dateString JNull = ''null''"
| "toString dateString (JBool b) = (if b then ''true'' else ''false'')"
| "toString dateString (JNum n) = (if n < 0 then CHR ''-'' # digits (nat (- n)) else digits (nat n))"
| "toString dateString (JStr s) = s"
| "toString dateString (JDate t) = dateString t"

section \<open>Claim normalisation\<close>

text \<open>
  \<^verbatim>\<open>
  function isClaimed(value) {
    if (!value) return false;
    const strValue = value.toString().toLowerCase().trim();
    return strValue === 'true' || strValue === 'yes' || strValue === 'claimed' || strValue === 'x';
  }
  \<close>
\<close>

definition isClaimed :: "(int \<Rightarrow> string) \<Rightarrow> jsval \<Rightarrow> bool" where
  "isClaimed dateString v =
     (if \<not> truthy v then False
      else (let strValue = js_trim (toLowerCase (toString dateString v))
            in strValue = ''true'' \<or> strValue = ''yes'' \<or> strValue = ''claimed'' \<or> strValue = ''x''))"

text \<open>
  The rule as the specification words it: the value is not falsy and, converted to a
  string, lowercased and trimmed, it is one of the four markers.
\<close>

definition claimMarkers :: "string list" where
  "claimMarkers = [''true'', ''yes'', ''claimed'', ''x'']"

definition normalizesToClaimed :: "(int \<Rightarrow> string) \<Rightarrow> jsval \<Rightarrow> bool" where
  "normalizesToClaimed dateString v =
     (truthy v \<and> js_trim (toLowerCase (toString dateString v)) \<in> set claimMarkers)"

section \<open>The spreadsheet\<close>

text \<open>
  The backing store is the host's spreadsheet service, reached through
  \<open>SpreadsheetApp\<close>. A sheet is modelled by its rows of cells, counted from 1 as the
  service counts them; a cell that is not stored is empty, and an empty cell reads as
  the empty string. A spreadsheet maps tab names to sheets.
\<close>

type_synonym row = "jsval list"
type_synonym sheet = "row list"
type_synonym spreadsheet = "string \<rightharpoonup> sheet"

definition SHEET_NAME :: string where
  "SHEET_NAME = ''REGISTRY''"

definition getSheetByName :: "spreadsheet \<Rightarrow> string \<Rightarrow> sheet option" where
  "getSheetByName ss name = ss name"

definition isEmptyCell :: "jsval \<Rightarrow> bool" where
  "isEmptyCell c = (c = JStr [])"

text \<open>\<open>sheet.getLastRow()\<close>: the position of the last row that has content, 0 on an empty sheet.\<close>

definition getLastRow :: "sheet \<Rightarrow> nat" where
  "getLastRow sh = length (dropWhile (list_all isEmptyCell) (rev sh))"

text \<open>\<open>sheet.getLastColumn()\<close>: the position of the last column that has content.\<close>

definition getLastColumn :: "sheet \<Rightarrow> nat" where
  "getLastColumn sh = fold (\<lambda>r m. max m (length (dropWhile isEmptyCell (rev r)))) sh 0"

text \<open>
  \<open>sheet.getRange(r, c).getValue()\<close>, for positions \<open>r\<close> and \<open>c\<close> from 1 on (the script
  reads row 2 or later, column 6).
\<close>

definition getValue :: "sheet \<Rightarrow> nat \<Rightarrow> nat \<Rightarrow> jsval" where
  "getValue sh r c =
     (if 1 \<le> r \<and> r \<le> length sh
      then (let cells = sh ! (r - 1)
            in if 1 \<le> c \<and> c \<le> length cells then cells ! (c - 1) else JStr [])
      else JStr [])"

text \<open>
  \<open>sheet.getRange(r, c).setValue(v)\<close>, for positions from 1 on (the script writes row 2
  or later, columns 6 to 8). Rows and cells that were not stored yet come into being
  empty. The value is stored as it is given.
\<close>

definition setValue :: "sheet \<Rightarrow> nat \<Rightarrow> nat \<Rightarrow> jsval \<Rightarrow> sheet" where
  "setValue sh r c v =
     (let rows = sh @ replicate (r - length sh) [];
          cells = rows ! (r - 1);
          cells' = cells @ replicate (c - length cells) (JStr [])
      in rows[r - 1 := cells'[c - 1 := v]])"

text \<open>
  \<open>sheet.getDataRange().getValues()\<close>: the rectangle from the first cell to the last row
  and the last column with content, one array a row; on an empty sheet it is the single
  first cell.
\<close>

definition getValues :: "sheet \<Rightarrow> row list" where
  "getValues sh =
     (let numRows = max 1 (getLastRow sh);
          numColumns = max 1 (getLastColumn sh)
      in map (\<lambda>r. map (\<lambda>c. getValue sh r c) [1 ..< numColumns + 1]) [1 ..< numRows + 1])"

text \<open>\<open>row[k]\<close>: reading an array past its end gives \<open>undefined\<close>.\<close>

definition element :: "row \<Rightarrow> nat \<Rightarrow> jsval" where
  "element cells k = (if k < length cells then cells ! k else JUndefined)"

section \<open>Errors and results\<close>

text \<open>A thrown \<open>Error\<close> with its message; a function that may throw returns \<open>error + 'a\<close>.\<close>

datatype error = Error string

record item =
  itemId :: nat
  productName :: jsval
  manufacturer :: jsval
  price :: jsval
  productUrl :: jsval
  imageUrl :: jsval
  claimed :: bool
  itemClaimedBy :: jsval

record claimResult =
  success :: bool
  message :: string

text \<open>The template literal \<open>Sheet "${SHEET_NAME}" not found\<close>.\<close>

definition notFoundMessage :: string where
  "notFoundMessage = ''Sheet '' @ [char_of (34 :: nat)] @ SHEET_NAME @ [char_of (34 :: nat)] @ '' not found''"

section \<open>Listing\<close>

text \<open>
  The test that skips a row, \<open>!row[0] || row[0].toString().trim() === ''\<close>; the right
  operand is evaluated only when the left one is false.
\<close>

definition skipRow :: "(int \<Rightarrow> string) \<Rightarrow> row \<Rightarrow> bool" where
  "skipRow dateString cells =
     (if \<not> truthy (element cells 0) then True
      else js_trim (toString dateString (element cells 0)) = [])"

text \<open>The object pushed for row \<open>i\<close> of the data.\<close>

definition makeItem :: "(int \<Rightarrow> string) \<Rightarrow> nat \<Rightarrow> row \<Rightarrow> item" where
  "makeItem dateString i cells =
     \<lparr> itemId = i,
       productName = js_or (element cells 0) (JStr []),
       manufacturer = js_or (element cells 1) (JStr []),
       price = js_or (element cells 2) (JStr []),
       productUrl = js_or (element cells 3) (JStr []),
       imageUrl = js_or (element cells 4) (JStr []),
       claimed = isClaimed dateString (element cells 5),
       itemClaimedBy = js_or (element cells 6) (JStr []) \<rparr>"

text \<open>
  The loop \<open>for (let i = 1; i < data.length; i++)\<close> of \<open>getRegistryData\<close>, started at
  \<open>i = 1\<close> with no items.
\<close>

function registryLoop :: "(int \<Rightarrow> string) \<Rightarrow> row list \<Rightarrow> nat \<Rightarrow> item list \<Rightarrow> item list" where
  "registryLoop dateString data i items =
     (if i < length data
      then (let cells = data ! i
            in if skipRow dateString cells
               then registryLoop dateString data (i + 1) items
               else registryLoop dateString data (i + 1) (items @ [makeItem dateString i cells]))
      else items)"
  by pat_completeness auto
termination
  by (relation "measure (\<lambda>(dateString, data, i, items). length data - i)") auto

declare registryLoop.simps [simp del]

text \<open>\<open>getRegistryData\<close>; the list returned stands for the object \<open>{ items: items }\<close>.\<close>

definition getRegistryData :: "(int \<Rightarrow> string) \<Rightarrow> spreadsheet \<Rightarrow> error + item list" where
  "getRegistryData dateString ss =
     (case getSheetByName ss SHEET_NAME of
        None \<Rightarrow> Inl (Error notFoundMessage)
      | Some sheet \<Rightarrow>
          (let data = getValues sheet
           in if length data < 2 then Inr []
              else Inr (registryLoop dateString data 1 [])))"

section \<open>Claiming\<close>

text \<open>
  \<open>claimItem\<close>, on an integer row index; \<open>now\<close> is the time value of \<open>new Date()\<close>.
  The result is what the function throws or returns, with the spreadsheet after it.
\<close>

definition claimItem ::
  "(int \<Rightarrow> string) \<Rightarrow> int \<Rightarrow> int \<Rightarrow> jsval \<Rightarrow> spreadsheet \<Rightarrow> (error + claimResult) \<times> spreadsheet" where
  "claimItem dateString now rowIndex claimedBy ss =
     (case getSheetByName ss SHEET_NAME of
        None \<Rightarrow> (Inl (Error notFoundMessage), ss)
      | Some sheet \<Rightarrow>
          (let lastRow = getLastRow sheet
           in if rowIndex < 2 \<or> rowIndex > int lastRow
              then (Inl (Error ''Invalid row index''), ss)
              else (let currentValue = getValue sheet (nat rowIndex) 6
                    in if isClaimed dateString currentValue
                       then (Inr \<lparr> success = False, message = ''Item already claimed'' \<rparr>, ss)
                       else (let sheet1 = setValue sheet (nat rowIndex) 6 (JStr ''TRUE'');
                                 sheet2 = (if truthy claimedBy
                                           then setValue sheet1 (nat rowIndex) 7 claimedBy
                                           else sheet1);
                                 sheet3 = setValue sheet2 (nat rowIndex) 8 (JDate now)
                             in (Inr \<lparr> success = True, message = ''Item claimed successfully'' \<rparr>,
                                 ss(SHEET_NAME \<mapsto> sheet3))))))"

section \<open>The router\<close>

text \<open>
  The object handed to \<open>createJsonResponse\<close>, and the text output it builds:
  \<open>content\<close> stands for the text \<open>JSON.stringify(data)\<close>. A text output has a content
  and a MIME type and nothing else.
\<close>

datatype payload =
    ItemsData "item list"
  | ClaimData claimResult
  | ErrorData string

datatype mime = MimeText | MimeJson

record textOutput =
  content :: payload
  mimeType :: mime

definition createTextOutput :: "payload \<Rightarrow> textOutput" where
  "createTextOutput text = \<lparr> content = text, mimeType = MimeText \<rparr>"

definition setMimeType :: "textOutput \<Rightarrow> mime \<Rightarrow> textOutput" where
  "setMimeType output m = output \<lparr> mimeType := m \<rparr>"

text \<open>
  \<^verbatim>\<open>
  function createJsonResponse(data, statusCode = 200) {
    const output = ContentService.createTextOutput(JSON.stringify(data))
      .setMimeType(ContentService.MimeType.JSON);
    return output;
  }
  \<close>
\<close>

definition createJsonResponse :: "payload \<Rightarrow> nat \<Rightarrow> textOutput" where
  "createJsonResponse data statusCode = setMimeType (createTextOutput data) MimeJson"

definition doGet :: "(int \<Rightarrow> string) \<Rightarrow> spreadsheet \<Rightarrow> textOutput" where
  "doGet dateString ss =
     (case getRegistryData dateString ss of
        Inr items \<Rightarrow> createJsonResponse (ItemsData items) 200
      | Inl (Error msg) \<Rightarrow> createJsonResponse (ErrorData msg) 500)"

text \<open>
  What \<open>JSON.parse(e.postData.contents)\<close> gives \<open>doPost\<close>: either it throws (a malformed
  body) or it returns the request object, of which the script reads the fields
  \<open>action\<close>, \<open>rowIndex\<close> and \<open>claimedBy\<close>; an absent field reads as \<open>undefined\<close>. The row
  index is an integer, as the request contract has it.
\<close>

record params =
  action :: jsval
  paramRowIndex :: int
  paramClaimedBy :: jsval

datatype body = Malformed string | Parsed params

definition doPost ::
  "(int \<Rightarrow> string) \<Rightarrow> int \<Rightarrow> body \<Rightarrow> spreadsheet \<Rightarrow> textOutput \<times> spreadsheet" where
  "doPost dateString now b ss =
     (case b of
        Malformed msg \<Rightarrow> (createJsonResponse (ErrorData msg) 500, ss)
      | Parsed p \<Rightarrow>
          (if action p = JStr ''claim''
           then (case claimItem dateString now (paramRowIndex p) (paramClaimedBy p) ss of
                   (Inr result, ss') \<Rightarrow> (createJsonResponse (ClaimData result) 200, ss')
                 | (Inl (Error msg), ss') \<Rightarrow> (createJsonResponse (ErrorData msg) 500, ss'))
           else (createJsonResponse (ErrorData ''Invalid action'') 400, ss)))"

section \<open>Notions of the specification and a sample table\<close>

text \<open>A first column that is "empty or whitespace-only after trimming".\<close>

definition isBlankCell :: "jsval \<Rightarrow> bool" where
  "isBlankCell v = (case v of JStr s \<Rightarrow> js_trim s = [] | _ \<Rightarrow> False)"

text \<open>
  A table for the concrete runs below: the header, a toaster nobody has claimed, a row
  whose product name is a single space, and a kettle that is claimed.
\<close>

definition sampleDateString :: "int \<Rightarrow> string" where
  "sampleDateString t = ''Thu Jan 01 1970 00:00:00 GMT+0000 (Coordinated Universal Time)''"

definition sampleSheet :: sheet where
  "sampleSheet =
     [[JStr ''Product'', JStr ''Brand'', JStr ''Price'', JStr ''URL'', JStr ''Image'', JStr ''Claimed''],
      [JStr ''Toaster'', JStr ''Acme'', JStr ''$39.99''],
      [JStr '' '', JStr ''Ghost''],
      [JStr ''Kettle'', JStr ''Bolt'', JStr ''$25'', JStr [], JStr [], JStr ''yes'', JStr ''Sam'']]"

definition sampleBook :: spreadsheet where
  "sampleBook = [SHEET_NAME \<mapsto> sampleSheet]"

text \<open>A table that has its header row only.\<close>

definition headerSheet :: sheet where
  "headerSheet = [[JStr ''Product'', JStr ''Brand'', JStr ''Price'']]"

definition headerBook :: spreadsheet where
  "headerBook = [SHEET_NAME \<mapsto> headerSheet]"

text \<open>A table with the header and one data row.\<close>

definition smallSheet :: sheet where
  "smallSheet = [[JStr ''Product'', JStr ''Brand''], [JStr ''Toaster'', JStr ''Acme'']]"

definition smallBook :: spreadsheet where
  "smallBook = [SHEET_NAME \<mapsto> smallSheet]"

text \<open>
  A table in which a name already stands in the claimant cell of a row that is not
  claimed.
\<close>

definition namedSheet :: sheet where
  "namedSheet =
     [[JStr ''Product'', JStr ''Brand''],
      [JStr ''Toaster'', JStr ''Acme''],
      [JStr ''Blender'', JStr ''Whirl'', JStr [], JStr [], JStr [], JStr [], JStr ''Sam'']]"

definition namedBook :: spreadsheet where
  "namedBook = [SHEET_NAME \<mapsto> namedSheet]"

section \<open>Facts about the spreadsheet model\<close>

lemma getValue_setValue:
  assumes "1 \<le> r" "1 \<le> c"
  shows "getValue (setValue sh r c v) r' c' = (if r' = r \<and> c' = c then v else getValue sh r' c')"
proof -
  define rows where "rows = sh @ replicate (r - length sh) []"
  define cells where "cells = rows ! (r - 1)"
  define cells' where "cells' = cells @ replicate (c - length cells) (JStr [])"
  have sv: "setValue sh r c v = rows[r - 1 := cells'[c - 1 := v]]"
    by (simp add: setValue_def rows_def cells_def cells'_def Let_def)
  have lr: "r \<le> length rows" by (simp add: rows_def)
  have lc: "c \<le> length cells'" by (simp add: cells'_def)
  have rows_get: "getValue rows k c' = getValue sh k c'" for k
    by (auto simp: getValue_def rows_def nth_append Let_def)
  have cells_get: "(if 1 \<le> c' \<and> c' \<le> length cells' then cells' ! (c' - 1) else JStr [])
      = (if 1 \<le> c' \<and> c' \<le> length cells then cells ! (c' - 1) else JStr [])"
    by (auto simp: cells'_def nth_append)
  have rows_at: "getValue rows r c' =
      (if 1 \<le> c' \<and> c' \<le> length cells then cells ! (c' - 1) else JStr [])"
    using assms lr by (simp add: getValue_def cells_def Let_def)
  show ?thesis
  proof (cases "r' = r")
    case True
    have "getValue (setValue sh r c v) r c' =
        (if 1 \<le> c' \<and> c' \<le> length cells' then (cells'[c - 1 := v]) ! (c' - 1) else JStr [])"
      using assms lr by (simp add: sv getValue_def Let_def)
    also have "\<dots> = (if c' = c then v else
        (if 1 \<le> c' \<and> c' \<le> length cells' then cells' ! (c' - 1) else JStr []))"
      using assms lc by (auto simp: nth_list_update)
    also have "\<dots> = (if c' = c then v else getValue rows r c')"
      by (simp only: cells_get rows_at)
    finally show ?thesis using True by (simp add: rows_get)
  next
    case False
    have "getValue (setValue sh r c v) r' c' = getValue rows r' c'"
      using False assms by (auto simp: sv getValue_def Let_def nth_list_update)
    then show ?thesis using False by (simp add: rows_get)
  qed
qed

lemma length_getValues: "length (getValues sh) = max 1 (getLastRow sh)"
  by (simp add: getValues_def Let_def)

text \<open>Row \<open>i\<close> of the data, counted from 0, is row \<open>i + 1\<close> of the sheet.\<close>

lemma element_getValues:
  assumes "i < length (getValues sh)"
  shows "element (getValues sh ! i) 0 = getValue sh (i + 1) 1"
  using assms by (simp add: getValues_def Let_def element_def del: upt_Suc)

lemma found_sample: "getSheetByName sampleBook SHEET_NAME = Some sampleSheet"
  by (simp add: getSheetByName_def sampleBook_def)

lemma found_header: "getSheetByName headerBook SHEET_NAME = Some headerSheet"
  by (simp add: getSheetByName_def headerBook_def)

lemma lastRow_sample: "getLastRow sampleSheet = 4"
  by code_simp

section \<open>Facts about listing\<close>

text \<open>The loop appends, in order, the item of every row from \<open>i\<close> on that it does not skip.\<close>

lemma registryLoop_eq:
  "registryLoop d data i items =
     items @ map (\<lambda>j. makeItem d j (data ! j)) (filter (\<lambda>j. \<not> skipRow d (data ! j)) [i ..< length data])"
proof (induction d data i items rule: registryLoop.induct)
  case (1 d data i items)
  show ?case
  proof (cases "i < length data")
    case True
    then have u: "[i ..< length data] = i # [i + 1 ..< length data]"
      by (simp add: upt_conv_Cons)
    show ?thesis
    proof (cases "skipRow d (data ! i)")
      case True
      with 1(1) \<open>i < length data\<close> u show ?thesis
        by (subst registryLoop.simps) (simp add: Let_def)
    next
      case False
      with 1(2) \<open>i < length data\<close> u show ?thesis
        by (subst registryLoop.simps) (simp add: Let_def)
    qed
  next
    case False
    then show ?thesis by (subst registryLoop.simps) simp
  qed
qed

lemma getRegistryData_found:
  assumes "getSheetByName ss SHEET_NAME = Some sheet"
  shows "getRegistryData d ss =
     Inr (map (\<lambda>j. makeItem d j (getValues sheet ! j))
            (filter (\<lambda>j. \<not> skipRow d (getValues sheet ! j)) [1 ..< length (getValues sheet)]))"
  using assms by (simp add: getRegistryData_def registryLoop_eq Let_def)

lemma blank_skipRow:
  assumes "isBlankCell (element cells 0)"
  shows "skipRow d cells"
  using assms by (auto simp: isBlankCell_def skipRow_def split: jsval.splits)

lemma skipRow_productName:
  assumes "\<not> skipRow d cells"
  shows "\<not> isBlankCell (productName (makeItem d i cells))"
  using assms
  by (auto simp: isBlankCell_def skipRow_def makeItem_def js_or_def split: jsval.splits if_splits)

text \<open>
  Every listed item comes from a data row of the sheet, and its \<open>id\<close> is one less than
  the number of that row: the product name of the item with id \<open>n\<close> stands in row
  \<open>n + 1\<close>.
\<close>

lemma listed_item_row:
  assumes "getSheetByName ss SHEET_NAME = Some sheet"
    and "getRegistryData d ss = Inr items"
    and "it \<in> set items"
  shows "2 \<le> itemId it + 1 \<and> itemId it + 1 \<le> getLastRow sheet
     \<and> productName it = getValue sheet (itemId it + 1) 1"
proof -
  let ?data = "getValues sheet"
  from assms obtain j where j: "1 \<le> j" "j < length ?data" "\<not> skipRow d (?data ! j)"
    and it: "it = makeItem d j (?data ! j)"
    by (auto simp: getRegistryData_found)
  have "productName it = element (?data ! j) 0"
    using j(3) by (simp add: it makeItem_def skipRow_def js_or_def split: if_splits)
  then have "productName it = getValue sheet (j + 1) 1"
    using element_getValues [OF j(2)] by simp
  moreover have "itemId it = j" by (simp add: it makeItem_def)
  moreover have "j + 1 \<le> getLastRow sheet" using j(1,2) by (simp add: length_getValues)
  ultimately show ?thesis using j(1) by simp
qed

section \<open>Facts about claiming\<close>

lemma isClaimed_TRUE: "isClaimed d (JStr ''TRUE'')"
  by code_simp

text \<open>The spreadsheet after a claim that goes through.\<close>

lemma claimItem_fresh:
  assumes "getSheetByName ss SHEET_NAME = Some sheet"
    and "2 \<le> rowIndex" and "rowIndex \<le> int (getLastRow sheet)"
    and "\<not> isClaimed d (getValue sheet (nat rowIndex) 6)"
  shows "claimItem d now rowIndex claimedBy ss =
     (Inr \<lparr> success = True, message = ''Item claimed successfully'' \<rparr>,
      ss(SHEET_NAME \<mapsto>
        setValue (if truthy claimedBy
                  then setValue (setValue sheet (nat rowIndex) 6 (JStr ''TRUE'')) (nat rowIndex) 7 claimedBy
                  else setValue sheet (nat rowIndex) 6 (JStr ''TRUE''))
          (nat rowIndex) 8 (JDate now)))"
  using assms by (simp add: claimItem_def Let_def)

text \<open>In the valid range the result depends on the flag cell only.\<close>

lemma claimItem_outcome:
  assumes "getSheetByName ss SHEET_NAME = Some sheet"
    and "2 \<le> rowIndex" and "rowIndex \<le> int (getLastRow sheet)"
  shows "fst (claimItem d now rowIndex claimedBy ss) =
     Inr (if isClaimed d (getValue sheet (nat rowIndex) 6)
          then \<lparr> success = False, message = ''Item already claimed'' \<rparr>
          else \<lparr> success = True, message = ''Item claimed successfully'' \<rparr>)"
  using assms by (simp add: claimItem_def Let_def)

section \<open>The claims\<close>

subsection \<open>Identifiers of listed items\<close>

text \<open>
  Claim C1 says that the listing gives each item the row number its row occupies in
  the table, so that the first data row, which is row 2, receives id 2. The loop
  assigns the array index \<open>i\<close> of the row, which counts from 0, and the first data row
  receives id 1 (lemma \<open>listed_item_row\<close> has the general fact). On the table of a
  header and one toaster: the toaster stands in row 2, it is listed with id 1, and a
  claim for row 1 is refused as an invalid row index.
\<close>

theorem getRegistryData_first_row_id:
  "getRegistryData sampleDateString smallBook =
     Inr [\<lparr> itemId = 1, productName = JStr ''Toaster'', manufacturer = JStr ''Acme'',
            price = JStr [], productUrl = JStr [], imageUrl = JStr [], claimed = False,
            itemClaimedBy = JStr [] \<rparr>]
   \<and> getValue smallSheet 2 1 = JStr ''Toaster''
   \<and> fst (claimItem sampleDateString 1700000000000 1 JUndefined smallBook)
       = Inl (Error ''Invalid row index'')"
  by code_simp

subsection \<open>Claiming a row that is claimed\<close>

text \<open>
  Claim C2: for a row index from 2 to the last occupied row whose flag cell already
  normalises to claimed, \<open>claimItem\<close> throws nothing, returns
  \<open>{ success: false, message: "Item already claimed" }\<close> and leaves the spreadsheet as it
  was, so the flag, the claimant and the timestamp of the row are unchanged.
\<close>

theorem claimItem_already_claimed:
  assumes "getSheetByName ss SHEET_NAME = Some sheet"
    and "2 \<le> rowIndex" and "rowIndex \<le> int (getLastRow sheet)"
    and "isClaimed d (getValue sheet (nat rowIndex) 6)"
  shows "claimItem d now rowIndex claimedBy ss =
     (Inr \<lparr> success = False, message = ''Item already claimed'' \<rparr>, ss)"
  using assms by (simp add: claimItem_def Let_def)

text \<open>The kettle of the sample table, row 4, is claimed.\<close>

theorem claimItem_already_claimed_witness:
  "claimItem sampleDateString 1700000000000 4 (JStr ''Alex'') sampleBook =
     (Inr \<lparr> success = False, message = ''Item already claimed'' \<rparr>, sampleBook)"
proof -
  have lower: "(2::int) \<le> 4" by simp
  have upper: "(4::int) \<le> int (getLastRow sampleSheet)" by (simp add: lastRow_sample)
  have flag: "isClaimed sampleDateString (getValue sampleSheet (nat 4) 6)" by code_simp
  show ?thesis
    by (rule claimItem_already_claimed [OF found_sample lower upper flag])
qed

subsection \<open>Claim normalisation\<close>

text \<open>
  Claim C3: \<open>isClaimed\<close> is true of a raw value exactly when the value is not falsy and
  its string, lowercased and trimmed, is one of "true", "yes", "claimed", "x"; it is
  true of "TRUE", "True", "yes", "Claimed", "x", "X" and false of "", null, "no",
  "false", "maybe".
\<close>

theorem isClaimed_normalization:
  "isClaimed d v = normalizesToClaimed d v
   \<and> isClaimed d (JStr ''TRUE'') \<and> isClaimed d (JStr ''True'') \<and> isClaimed d (JStr ''yes'')
   \<and> isClaimed d (JStr ''Claimed'') \<and> isClaimed d (JStr ''x'') \<and> isClaimed d (JStr ''X'')
   \<and> \<not> isClaimed d (JStr []) \<and> \<not> isClaimed d JNull \<and> \<not> isClaimed d (JStr ''no'')
   \<and> \<not> isClaimed d (JStr ''false'') \<and> \<not> isClaimed d (JStr ''maybe'')"
proof -
  have refines: "isClaimed d v = normalizesToClaimed d v"
    by (simp add: isClaimed_def normalizesToClaimed_def claimMarkers_def Let_def)
  have samples: "isClaimed d (JStr ''TRUE'') \<and> isClaimed d (JStr ''True'') \<and> isClaimed d (JStr ''yes'')
   \<and> isClaimed d (JStr ''Claimed'') \<and> isClaimed d (JStr ''x'') \<and> isClaimed d (JStr ''X'')
   \<and> \<not> isClaimed d (JStr []) \<and> \<not> isClaimed d JNull \<and> \<not> isClaimed d (JStr ''no'')
   \<and> \<not> isClaimed d (JStr ''false'') \<and> \<not> isClaimed d (JStr ''maybe'')"
    by code_simp
  from refines samples show ?thesis by blast
qed

subsection \<open>Claiming a row that is free\<close>

text \<open>
  Claim C4: for a row index from 2 to the last occupied row whose flag cell does not
  normalise to claimed, \<open>claimItem\<close> returns
  \<open>{ success: true, message: "Item claimed successfully" }\<close>, and in the sheet it leaves
  the flag cell of the row normalises to claimed, the claimant cell holds \<open>claimedBy\<close>
  when that is not empty, and the timestamp cell holds the current time.
\<close>

theorem claimItem_marks_row:
  assumes "getSheetByName ss SHEET_NAME = Some sheet"
    and "2 \<le> rowIndex" and "rowIndex \<le> int (getLastRow sheet)"
    and "\<not> isClaimed d (getValue sheet (nat rowIndex) 6)"
  shows "\<exists>sheet'. claimItem d now rowIndex claimedBy ss =
            (Inr \<lparr> success = True, message = ''Item claimed successfully'' \<rparr>,
             ss(SHEET_NAME \<mapsto> sheet'))
          \<and> isClaimed d (getValue sheet' (nat rowIndex) 6)
          \<and> (truthy claimedBy \<longrightarrow> getValue sheet' (nat rowIndex) 7 = claimedBy)
          \<and> getValue sheet' (nat rowIndex) 8 = JDate now"
proof -
  let ?r = "nat rowIndex"
  let ?sheet1 = "setValue sheet ?r 6 (JStr ''TRUE'')"
  let ?sheet2 = "if truthy claimedBy then setValue ?sheet1 ?r 7 claimedBy else ?sheet1"
  let ?sheet3 = "setValue ?sheet2 ?r 8 (JDate now)"
  have r: "1 \<le> ?r" using assms(2) by simp
  have flag: "getValue ?sheet3 ?r 6 = JStr ''TRUE''"
    using r by (simp add: getValue_setValue)
  have claimant: "truthy claimedBy \<longrightarrow> getValue ?sheet3 ?r 7 = claimedBy"
    using r by (simp add: getValue_setValue)
  have stamp: "getValue ?sheet3 ?r 8 = JDate now"
    using r by (simp add: getValue_setValue)
  show ?thesis
    using claimItem_fresh [OF assms, of now claimedBy] flag claimant stamp isClaimed_TRUE [of d]
    by (intro exI [of _ ?sheet3]) simp
qed

text \<open>Alex claims the toaster of the sample table, row 2.\<close>

theorem claimItem_marks_row_witness:
  "\<exists>sheet'. claimItem sampleDateString 1700000000000 2 (JStr ''Alex'') sampleBook =
            (Inr \<lparr> success = True, message = ''Item claimed successfully'' \<rparr>,
             sampleBook(SHEET_NAME \<mapsto> sheet'))
          \<and> isClaimed sampleDateString (getValue sheet' 2 6)
          \<and> getValue sheet' 2 7 = JStr ''Alex''
          \<and> getValue sheet' 2 8 = JDate 1700000000000"
proof -
  have lower: "(2::int) \<le> 2" by simp
  have upper: "(2::int) \<le> int (getLastRow sampleSheet)" by (simp add: lastRow_sample)
  have flag: "\<not> isClaimed sampleDateString (getValue sampleSheet (nat 2) 6)" by code_simp
  have given: "truthy (JStr ''Alex'')" by simp
  show ?thesis
    using claimItem_marks_row [OF found_sample lower upper flag, of 1700000000000 "JStr ''Alex''"] given
    by simp
qed

subsection \<open>Row indices out of range\<close>

text \<open>
  Claim C5: for a row index below 2 or above the last occupied row, \<open>claimItem\<close> throws
  the error "Invalid row index" rather than returning a result, and the spreadsheet is
  left as it was.
\<close>

theorem claimItem_invalid_row:
  assumes "getSheetByName ss SHEET_NAME = Some sheet"
    and "rowIndex < 2 \<or> rowIndex > int (getLastRow sheet)"
  shows "claimItem d now rowIndex claimedBy ss = (Inl (Error ''Invalid row index''), ss)"
  using assms by (auto simp: claimItem_def Let_def)

text \<open>The header row 1 and row 5, past the four rows of the sample table.\<close>

theorem claimItem_invalid_row_witness:
  "claimItem sampleDateString 1700000000000 1 (JStr ''Alex'') sampleBook
     = (Inl (Error ''Invalid row index''), sampleBook)
   \<and> claimItem sampleDateString 1700000000000 5 (JStr ''Alex'') sampleBook
     = (Inl (Error ''Invalid row index''), sampleBook)"
proof -
  have below: "(1::int) < 2 \<or> 1 > int (getLastRow sampleSheet)" by simp
  have above: "(5::int) < 2 \<or> 5 > int (getLastRow sampleSheet)" by (simp add: lastRow_sample)
  show ?thesis
    using claimItem_invalid_row [OF found_sample below] claimItem_invalid_row [OF found_sample above]
    by simp
qed

subsection \<open>An action that is not a claim\<close>

text \<open>
  Claim C6 says that a request whose action is not "claim" is answered with
  \<open>{ error: "Invalid action" }\<close> under a client-error status, with no store operation.
  \<open>doPost\<close> hands the status 400 to \<open>createJsonResponse\<close>, which drops it: for the
  action "release" the answer is the text output with that body and the JSON MIME
  type, the very output built with status 200, and the spreadsheet is untouched.
\<close>

theorem doPost_invalid_action:
  "doPost sampleDateString 1700000000000
     (Parsed \<lparr> action = JStr ''release'', paramRowIndex = 2, paramClaimedBy = JUndefined \<rparr>) sampleBook
   = (\<lparr> content = ErrorData ''Invalid action'', mimeType = MimeJson \<rparr>, sampleBook)
   \<and> createJsonResponse (ErrorData ''Invalid action'') 200
   = \<lparr> content = ErrorData ''Invalid action'', mimeType = MimeJson \<rparr>"
  by (simp add: doPost_def createJsonResponse_def createTextOutput_def setMimeType_def)

subsection \<open>Rows with a blank first column\<close>

text \<open>
  Claim C7 says that a row whose first column is blank cannot be claimed by its index.
  \<open>claimItem\<close> never reads the first column: in the sample table row 3 has a single
  space for its product name, and Alex's claim for row 3 goes through.
\<close>

theorem blank_row_claim_counterexample:
  "isBlankCell (getValue sampleSheet 3 1)
   \<and> fst (claimItem sampleDateString 1700000000000 3 (JStr ''Alex'') sampleBook)
       = Inr \<lparr> success = True, message = ''Item claimed successfully'' \<rparr>"
  by code_simp

text \<open>
  Claim C7 as amended: a row from 2 to the last occupied row whose first column is
  blank is skipped by the listing, and a claim addressed to its index is treated as for
  any other row: it succeeds when the flag cell does not normalise to claimed and is
  answered "Item already claimed" when it does.
\<close>

theorem claimItem_blank_first_column:
  assumes "getSheetByName ss SHEET_NAME = Some sheet"
    and "2 \<le> rowIndex" and "rowIndex \<le> int (getLastRow sheet)"
    and "isBlankCell (getValue sheet (nat rowIndex) 1)"
  shows "skipRow d (getValues sheet ! (nat rowIndex - 1))
     \<and> fst (claimItem d now rowIndex claimedBy ss) =
         Inr (if isClaimed d (getValue sheet (nat rowIndex) 6)
              then \<lparr> success = False, message = ''Item already claimed'' \<rparr>
              else \<lparr> success = True, message = ''Item claimed successfully'' \<rparr>)"
proof -
  have i: "nat rowIndex - 1 < length (getValues sheet)"
    using assms(2,3) by (simp add: length_getValues)
  have "element (getValues sheet ! (nat rowIndex - 1)) 0 = getValue sheet (nat rowIndex) 1"
    using element_getValues [OF i] assms(2) by simp
  with assms(4) have "skipRow d (getValues sheet ! (nat rowIndex - 1))"
    by (simp add: blank_skipRow)
  with claimItem_outcome [OF assms(1-3), of d now claimedBy] show ?thesis by simp
qed

theorem claimItem_blank_first_column_witness:
  "skipRow sampleDateString (getValues sampleSheet ! 2)
   \<and> fst (claimItem sampleDateString 1700000000000 3 (JStr ''Alex'') sampleBook)
       = Inr \<lparr> success = True, message = ''Item claimed successfully'' \<rparr>"
proof -
  have lower: "(2::int) \<le> 3" by simp
  have upper: "(3::int) \<le> int (getLastRow sampleSheet)" by (simp add: lastRow_sample)
  have blank: "isBlankCell (getValue sampleSheet (nat 3) 1)" by code_simp
  have flag: "\<not> isClaimed sampleDateString (getValue sampleSheet (nat 3) 6)" by code_simp
  show ?thesis
    using claimItem_blank_first_column [OF found_sample lower upper blank,
        of sampleDateString 1700000000000 "JStr ''Alex''"] flag
    by simp
qed

subsection \<open>Rows the listing leaves out\<close>

text \<open>
  Claim C8: the listing returns, and it leaves out every data row whose first column
  is empty or only white space, whatever the other columns hold: no item carries the
  index of such a row, and no item has a blank product name. On a table with fewer
  than 2 rows it returns no items.
\<close>

theorem getRegistryData_skips_blank_rows:
  assumes "getSheetByName ss SHEET_NAME = Some sheet"
  shows "\<exists>items. getRegistryData d ss = Inr items
          \<and> (\<forall>i. 1 \<le> i \<and> i < length (getValues sheet)
                   \<and> isBlankCell (element (getValues sheet ! i) 0)
                 \<longrightarrow> i \<notin> itemId ` set items)
          \<and> (\<forall>it \<in> set items. \<not> isBlankCell (productName it))
          \<and> (getLastRow sheet < 2 \<longrightarrow> items = [])"
proof -
  let ?data = "getValues sheet"
  let ?items = "map (\<lambda>j. makeItem d j (?data ! j))
      (filter (\<lambda>j. \<not> skipRow d (?data ! j)) [1 ..< length ?data])"
  have ids: "itemId ` set ?items = {j. 1 \<le> j \<and> j < length ?data \<and> \<not> skipRow d (?data ! j)}"
    by (auto simp: makeItem_def image_iff)
  have a: "\<forall>i. 1 \<le> i \<and> i < length ?data \<and> isBlankCell (element (?data ! i) 0)
      \<longrightarrow> i \<notin> itemId ` set ?items"
    unfolding ids using blank_skipRow by blast
  have b: "\<forall>it \<in> set ?items. \<not> isBlankCell (productName it)"
    using skipRow_productName by auto
  have c: "getLastRow sheet < 2 \<longrightarrow> ?items = []"
    by (auto simp: length_getValues)
  show ?thesis
    using a b c getRegistryData_found [OF assms, of d] by blast
qed

text \<open>
  In the sample table the row at index 2 of the data has a blank product name and a
  brand; the header-only table has no data rows.
\<close>

theorem getRegistryData_skips_blank_rows_witness:
  "(\<exists>items. getRegistryData sampleDateString sampleBook = Inr items
       \<and> 2 \<notin> itemId ` set items \<and> (\<forall>it \<in> set items. \<not> isBlankCell (productName it)))
   \<and> getRegistryData sampleDateString headerBook = Inr []"
proof -
  have row: "1 \<le> (2::nat) \<and> 2 < length (getValues sampleSheet)
      \<and> isBlankCell (element (getValues sampleSheet ! 2) 0)"
    by code_simp
  have few: "getLastRow headerSheet < 2" by code_simp
  from getRegistryData_skips_blank_rows [OF found_sample, of sampleDateString] row
  have first: "\<exists>items. getRegistryData sampleDateString sampleBook = Inr items
       \<and> 2 \<notin> itemId ` set items \<and> (\<forall>it \<in> set items. \<not> isBlankCell (productName it))"
    by blast
  from getRegistryData_skips_blank_rows [OF found_header, of sampleDateString] few
  have second: "getRegistryData sampleDateString headerBook = Inr []"
    by blast
  from first second show ?thesis by blast
qed

subsection \<open>Claiming without a name\<close>

text \<open>
  Claim C9: for a row index from 2 to the last occupied row whose flag cell does not
  normalise to claimed, a claim whose \<open>claimedBy\<close> is absent or empty succeeds, and the
  claimant cell of the row holds afterwards what it held before.
\<close>

theorem claimItem_without_claimant:
  assumes "getSheetByName ss SHEET_NAME = Some sheet"
    and "2 \<le> rowIndex" and "rowIndex \<le> int (getLastRow sheet)"
    and "\<not> isClaimed d (getValue sheet (nat rowIndex) 6)"
    and "\<not> truthy claimedBy"
  shows "\<exists>sheet'. claimItem d now rowIndex claimedBy ss =
            (Inr \<lparr> success = True, message = ''Item claimed successfully'' \<rparr>,
             ss(SHEET_NAME \<mapsto> sheet'))
          \<and> getValue sheet' (nat rowIndex) 7 = getValue sheet (nat rowIndex) 7"
proof -
  let ?r = "nat rowIndex"
  let ?sheet3 = "setValue (setValue sheet ?r 6 (JStr ''TRUE'')) ?r 8 (JDate now)"
  have r: "1 \<le> ?r" using assms(2) by simp
  have claimant: "getValue ?sheet3 ?r 7 = getValue sheet ?r 7"
    using r by (simp add: getValue_setValue)
  show ?thesis
    using claimItem_fresh [OF assms(1-4), of now claimedBy] assms(5) claimant
    by (intro exI [of _ ?sheet3]) simp
qed

text \<open>
  Sam's name stands in the claimant cell of row 3 of this table, whose flag cell is
  empty; a claim for row 3 with no \<open>claimedBy\<close> field leaves the name there.
\<close>

theorem claimItem_without_claimant_witness:
  "\<exists>sheet'. claimItem sampleDateString 1700000000000 3 JUndefined namedBook =
            (Inr \<lparr> success = True, message = ''Item claimed successfully'' \<rparr>,
             namedBook(SHEET_NAME \<mapsto> sheet'))
          \<and> getValue sheet' 3 7 = JStr ''Sam''"
proof -
  have found: "getSheetByName namedBook SHEET_NAME = Some namedSheet"
    by (simp add: getSheetByName_def namedBook_def)
  have lower: "(2::int) \<le> 3" by simp
  have upper: "(3::int) \<le> int (getLastRow namedSheet)" by code_simp
  have flag: "\<not> isClaimed sampleDateString (getValue namedSheet (nat 3) 6)" by code_simp
  have absent: "\<not> truthy JUndefined" by simp
  have before: "getValue namedSheet 3 7 = JStr ''Sam''" by code_simp
  show ?thesis
    using claimItem_without_claimant [OF found lower upper flag absent, of 1700000000000] before
    by simp
qed

subsection \<open>The status code\<close>

text \<open>
  Claim C10: \<open>createJsonResponse\<close> builds the same output for a payload whatever status
  code it is given; the 400 of the invalid action and the 500 of a thrown error leave
  no trace in the response.
\<close>

theorem createJsonResponse_ignores_status:
  "createJsonResponse data statusCode = createJsonResponse data statusCode'"
  by (simp add: createJsonResponse_def)

end
